theory Spec2Isabelle
  imports Complex_Main "HOL-Library.Word"
begin

unbundle bit_operations_syntax

section \<open>The host type system as the serializer sees it\<close>

text \<open>
  \<^verbatim>\<open>src/cli/index.js\<close> walks the type objects of the TypeScript compiler API. The
  objects refer to each other (a property's type may be the enclosing type), so they are
  kept in a store: a type object lives at an address, \<open>env a\<close> is the object at address
  \<open>a\<close>, and a handle is \<open>Some a\<close>, or \<open>None\<close> for JavaScript's \<open>null\<close>/\<open>undefined\<close>.
  Every field of a record below is the result of the property read or method call of the
  same name in the source; a method that the source guards with
  \<^verbatim>\<open>type.m && type.m()\<close> is the boolean "the method exists and answers true".

  Strings are lists of code units below 256. Numbers of numeric literal types are the
  (finite) values of the literals, as reals.

  The checker may throw where it resolves the type of a property (lines 268 to 270, and
  \<^verbatim>\<open>getTypeOfSymbol\<close> inside \<^verbatim>\<open>isLikelyMethod\<close>), where it hands out the type arguments
  of an array (line 318) and where it enumerates the properties of a type (lines 257 and
  338): these calls give \<open>Inl\<close> of the exception or \<open>Inr\<close> of the result. The other reads
  of the API are taken to return. \<open>callSignatures\<close> is the length of
  \<^verbatim>\<open>getCallSignatures()\<close>, 0 when there is none.
\<close>

datatype schema =
    Str string
  | Num real
  | Bool bool
  | Arr "schema list"
  | Obj "(string \<times> schema) list"

datatype exn = Exn string

datatype warning = WarnProperty string | WarnArray string

datatype typeId = NumId nat | TokId string

datatype litval = LitStr string | LitNum real

record tsSymbol =
  sname :: string
  sid :: nat

record tsProp =
  getName :: string
  valueDeclaration :: bool
  getTypeOfSymbol :: "exn + nat option"
  getTypeOfSymbolAtLocation :: "exn + nat option"

record tsType =
  tid :: nat
  symbol :: "tsSymbol option"
  flags :: "32 word"
  isLiteral :: bool
  isStringLiteral :: bool
  isNumberLiteral :: bool
  tvalue :: litval
  intrinsicName :: string
  isUnion :: bool
  types :: "nat list"
  isArrayType :: bool
  getTypeArguments :: "exn + nat list"
  hasGetProperties :: bool
  getProperties :: "exn + tsProp list"
  callSignatures :: nat
  typeToString :: string

type_synonym env = "nat \<Rightarrow> tsType"

text \<open>The bits of \<^verbatim>\<open>ts.TypeFlags\<close> that the source tests (TypeScript 3.x to 5.x).\<close>

definition TypeFlags_Any :: "32 word" where "TypeFlags_Any = 1"
definition TypeFlags_Unknown :: "32 word" where "TypeFlags_Unknown = 2"
definition TypeFlags_String :: "32 word" where "TypeFlags_String = 4"
definition TypeFlags_Number :: "32 word" where "TypeFlags_Number = 8"
definition TypeFlags_Boolean :: "32 word" where "TypeFlags_Boolean = 16"
definition TypeFlags_BooleanLiteral :: "32 word" where "TypeFlags_BooleanLiteral = 512"
definition TypeFlags_Undefined :: "32 word" where "TypeFlags_Undefined = 32768"
definition TypeFlags_Null :: "32 word" where "TypeFlags_Null = 65536"

text \<open>
  An entry of the \<^verbatim>\<open>typeDefinitions\<close> map (\<^verbatim>\<open>name\<close>, \<^verbatim>\<open>type\<close>, \<^verbatim>\<open>file\<close>); the map
  itself is the list of its entries in insertion order, keyed by name.
\<close>

record typeInfo =
  ti_name :: string
  ti_type :: nat
  ti_file :: string

type_synonym typeDefinitions = "(string \<times> typeInfo) list"

text \<open>
  What the calls share and change: the \<^verbatim>\<open>processedTypes\<close> set, and how many times
  \<^verbatim>\<open>Math.random()\<close> has been called. The \<open>k\<close>-th call of
  \<^verbatim>\<open>Math.random().toString(36).substring(7)\<close> yields \<open>rand k\<close>. The lines written by
  \<^verbatim>\<open>console.warn\<close> are returned beside each result, in order.
\<close>

record state =
  processedTypes :: "string set"
  randomCalls :: nat

section \<open>The serializer\<close>

definition isBuiltInType :: "string \<Rightarrow> bool" where
  "isBuiltInType typeName \<longleftrightarrow>
     typeName \<in> set [''Array'', ''String'', ''Number'', ''Boolean'', ''Object'', ''Function'',
       ''Promise'', ''Date'', ''RegExp'', ''Error'', ''Map'', ''Set'', ''Symbol'',
       ''Iterator'', ''Generator'']
     \<or> typeName = ''__type''"

datatype propOutcome = Skip | Throw string | Resolve "nat option"

text \<open>
  The body of the property loop up to the recursive call: the name test,
  \<^verbatim>\<open>isLikelyMethod\<close> and the resolution of the property's type. \<open>Skip\<close> is
  \<^verbatim>\<open>continue\<close>, \<open>Throw\<close> an exception of the checker inside the \<^verbatim>\<open>try\<close>.
\<close>

definition resolvePropType :: "tsProp \<Rightarrow> propOutcome" where
  "resolvePropType prop =
     (if valueDeclaration prop
      then (case getTypeOfSymbolAtLocation prop of Inl (Exn m) \<Rightarrow> Throw m | Inr h \<Rightarrow> Resolve h)
      else (case getTypeOfSymbol prop of Inl (Exn m) \<Rightarrow> Throw m | Inr h \<Rightarrow> Resolve h))"

definition propOutcome :: "env \<Rightarrow> tsProp \<Rightarrow> propOutcome" where
  "propOutcome env prop =
     (if take 2 (getName prop) = ''__'' then Skip
      else if \<not> valueDeclaration prop then resolvePropType prop
      else (case getTypeOfSymbol prop of
              Inl (Exn m) \<Rightarrow> Throw m
            | Inr None \<Rightarrow> resolvePropType prop
            | Inr (Some b) \<Rightarrow>
                if callSignatures (env b) > 0 then Skip else resolvePropType prop))"

text \<open>
  \<^verbatim>\<open>obj[k] = v\<close> on an object kept as the list of its own properties in insertion order
  (JavaScript enumerates integer-like keys first; that order is a function of this list).
\<close>

fun objSet :: "(string \<times> 'v) list \<Rightarrow> string \<Rightarrow> 'v \<Rightarrow> (string \<times> 'v) list" where
  "objSet [] k v = [(k, v)]"
| "objSet ((k', v') # kvs) k v = (if k' = k then (k, v) # kvs else (k', v') # objSet kvs k v)"

text \<open>Line 224: the identity used by the cycle guard.\<close>

definition typeIdOf :: "(nat \<Rightarrow> string) \<Rightarrow> tsType \<Rightarrow> state \<Rightarrow> typeId \<times> state" where
  "typeIdOf rand t st =
     (if tid t \<noteq> 0 then (NumId (tid t), st)
      else case symbol t of
             Some s \<Rightarrow>
               if sid s \<noteq> 0 then (NumId (sid s), st)
               else (TokId (rand (randomCalls st)), st\<lparr>randomCalls := Suc (randomCalls st)\<rparr>)
           | None \<Rightarrow> (TokId (rand (randomCalls st)), st\<lparr>randomCalls := Suc (randomCalls st)\<rparr>))"

text \<open>Lines 231 to 236.\<close>

definition primitiveTag :: "tsType \<Rightarrow> string option" where
  "primitiveTag t =
     (if flags t AND TypeFlags_String \<noteq> 0 then Some ''string''
      else if flags t AND TypeFlags_Number \<noteq> 0 then Some ''number''
      else if flags t AND TypeFlags_Boolean \<noteq> 0 then Some ''boolean''
      else if flags t AND TypeFlags_Null \<noteq> 0 then Some ''null''
      else if flags t AND TypeFlags_Undefined \<noteq> 0 then Some ''undefined''
      else if flags t AND TypeFlags_Any \<noteq> 0 \<or> flags t AND TypeFlags_Unknown \<noteq> 0 then Some ''any''
      else None)"

definition litSchema :: "litval \<Rightarrow> schema" where
  "litSchema v = (case v of LitStr s \<Rightarrow> Str s | LitNum x \<Rightarrow> Num x)"

text \<open>Lines 238 to 244.\<close>

definition literalValue :: "tsType \<Rightarrow> schema option" where
  "literalValue t =
     (if isLiteral t then
        (if isStringLiteral t then Some (litSchema (tvalue t))
         else if isNumberLiteral t then Some (litSchema (tvalue t))
         else if flags t AND TypeFlags_BooleanLiteral \<noteq> 0 then Some (Bool (intrinsicName t = ''true''))
         else None)
      else None)"

text \<open>
  Lines 246 to 256: the registry entry whose properties are expanded, if any, and the
  state after \<^verbatim>\<open>processedTypes.add\<close>.
\<close>

definition namedStep :: "env \<Rightarrow> typeDefinitions \<Rightarrow> tsType \<Rightarrow> state \<Rightarrow> nat option \<times> state" where
  "namedStep env typeDefinitions t st =
     (case symbol t of
        None \<Rightarrow> (None, st)
      | Some s \<Rightarrow>
          if sname s \<noteq> [] \<and> \<not> isBuiltInType (sname s) then
            (case find (\<lambda>d. ti_name d = sname s \<and> \<not> isBuiltInType (sname s)) (map snd typeDefinitions) of
               None \<Rightarrow> (None, st)
             | Some d \<Rightarrow>
                 if sname s \<notin> processedTypes st then
                   (if hasGetProperties (env (ti_type d)) then Some (ti_type d) else None,
                    st\<lparr>processedTypes := insert (sname s) (processedTypes st)\<rparr>)
                 else (None, st))
          else (None, st))"

definition arrayOf :: "schema \<Rightarrow> schema" where
  "arrayOf items = Obj [(''type'', Str ''array''), (''items'', items)]"

text \<open>
  Lines 231 to 371, the classification of one type object after the cycle guard: either
  the call is over (\<open>Done\<close>, with the value returned or the exception thrown, and the
  warnings written), or it goes on into a property list (lines 260 and 343), into one
  member of a union (line 310), or into the element type of an array (line 319).
\<close>

datatype step =
    Done "exn + schema" "warning list"
  | Properties "tsProp list"
  | Member nat
  | Element "nat option"

definition classifyUnion :: "env \<Rightarrow> tsType \<Rightarrow> step" where
  "classifyUnion env t =
     (if list_all (\<lambda>m. isStringLiteral (env m)) (types t)
      then Done (Inr (Arr (map (\<lambda>m. litSchema (tvalue (env m))) (types t)))) []
      else if length (types t) = 2
              \<and> list_all (\<lambda>m. flags (env m) AND TypeFlags_BooleanLiteral \<noteq> 0) (types t)
      then Done (Inr (Str ''boolean'')) []
      else
        (case find (\<lambda>m. flags (env m) AND TypeFlags_Undefined = 0
                         \<and> flags (env m) AND TypeFlags_Null = 0) (types t) of
           Some nonUndefinedType \<Rightarrow> Member nonUndefinedType
         | None \<Rightarrow> Done (Inr (Str ''any'')) []))"

definition classifyArray :: "tsType \<Rightarrow> step" where
  "classifyArray t =
     (case getTypeArguments t of
        Inl (Exn msg) \<Rightarrow> Done (Inr (arrayOf (Str ''any''))) [WarnArray msg]
      | Inr args \<Rightarrow> Element (case args of [] \<Rightarrow> None | elementType # _ \<Rightarrow> Some elementType))"

definition classifyObject :: "tsType \<Rightarrow> step" where
  "classifyObject t =
     (if hasGetProperties t then
        (case getProperties t of
           Inl e \<Rightarrow> Done (Inl e) []
         | Inr [] \<Rightarrow> Done (Inr (Str (typeToString t))) []
         | Inr (p # ps) \<Rightarrow> Properties (p # ps))
      else Done (Inr (Str (typeToString t))) [])"

definition classify :: "env \<Rightarrow> typeDefinitions \<Rightarrow> tsType \<Rightarrow> state \<Rightarrow> step \<times> state" where
  "classify env typeDefinitions t st =
     (case primitiveTag t of
        Some tag \<Rightarrow> (Done (Inr (Str tag)) [], st)
      | None \<Rightarrow>
     (case literalValue t of
        Some v \<Rightarrow> (Done (Inr v) [], st)
      | None \<Rightarrow>
     (case namedStep env typeDefinitions t st of
        (Some b, st') \<Rightarrow>
          (case getProperties (env b) of
             Inl e \<Rightarrow> (Done (Inl e) [], st')
           | Inr properties \<Rightarrow> (Properties properties, st'))
      | (None, st') \<Rightarrow>
          (if isUnion t then classifyUnion env t
           else if isArrayType t then classifyArray t
           else classifyObject t, st'))))"

text \<open>
  \<^verbatim>\<open>serializeType\<close>. The first argument is the number of frames the stack still holds.
  A call that finds none left does not run: the engine throws a \<^verbatim>\<open>RangeError\<close>, which,
  like every exception, travels up to the nearest \<^verbatim>\<open>catch\<close> (lines 279, 331 and 362)
  or leaves the outermost call. The frames of the checker's own calls and of
  \<^verbatim>\<open>console.warn\<close> are not counted. A result is the value returned (\<open>Inr\<close>) or the
  exception thrown (\<open>Inl\<close>), the state after the call, and the warnings written.
  \<^verbatim>\<open>serializeProps\<close> is the loop over the properties (lines 260 to 282 and 343 to 365),
  with its \<^verbatim>\<open>try\<close>/\<^verbatim>\<open>catch\<close>.
\<close>

definition stackExhausted :: string where
  "stackExhausted = ''Maximum call stack size exceeded''"

fun serializeType ::
  "nat \<Rightarrow> env \<Rightarrow> (nat \<Rightarrow> string) \<Rightarrow> typeDefinitions \<Rightarrow> nat option \<Rightarrow> state \<Rightarrow> typeId set
     \<Rightarrow> (exn + schema) \<times> state \<times> warning list"
and serializeProps ::
  "nat \<Rightarrow> env \<Rightarrow> (nat \<Rightarrow> string) \<Rightarrow> typeDefinitions \<Rightarrow> tsProp list \<Rightarrow> state \<Rightarrow> typeId set
     \<Rightarrow> (string \<times> schema) list \<Rightarrow> (string \<times> schema) list \<times> state \<times> warning list"
where
  "serializeType 0 env rand typeDefinitions h st visited = (Inl (Exn stackExhausted), st, [])"
| "serializeType (Suc n) env rand typeDefinitions None st visited = (Inr (Str ''any''), st, [])"
| "serializeType (Suc n) env rand typeDefinitions (Some a) st visited =
     (case typeIdOf rand (env a) st of
        (typeId, st1) \<Rightarrow>
          if typeId \<in> visited then (Inr (Str ''any''), st1, [])
          else
            (case classify env typeDefinitions (env a) st1 of
               (Done r w, st2) \<Rightarrow> (r, st2, w)
             | (Properties properties, st2) \<Rightarrow>
                 (case serializeProps n env rand typeDefinitions properties st2
                         (insert typeId visited) [] of
                    (structure, st3, w) \<Rightarrow> (Inr (Obj structure), st3, w))
             | (Member m, st2) \<Rightarrow>
                 serializeType n env rand typeDefinitions (Some m) st2 (insert typeId visited)
             | (Element elementType, st2) \<Rightarrow>
                 (case serializeType n env rand typeDefinitions elementType st2
                         (insert typeId visited) of
                    (Inl (Exn msg), st3, w) \<Rightarrow>
                      (Inr (arrayOf (Str ''any'')), st3, w @ [WarnArray msg])
                  | (Inr items, st3, w) \<Rightarrow> (Inr (arrayOf items), st3, w))))"
| "serializeProps n env rand typeDefinitions [] st visited acc = (acc, st, [])"
| "serializeProps n env rand typeDefinitions (prop # props) st visited acc =
     (case propOutcome env prop of
        Skip \<Rightarrow> serializeProps n env rand typeDefinitions props st visited acc
      | Throw msg \<Rightarrow>
          (case serializeProps n env rand typeDefinitions props st visited acc of
             (r, st', w) \<Rightarrow> (r, st', WarnProperty msg # w))
      | Resolve propType \<Rightarrow>
          (case serializeType n env rand typeDefinitions propType st visited of
             (Inl (Exn msg), st1, w1) \<Rightarrow>
               (case serializeProps n env rand typeDefinitions props st1 visited acc of
                  (r, st', w2) \<Rightarrow> (r, st', w1 @ WarnProperty msg # w2))
           | (Inr v, st1, w1) \<Rightarrow>
               (case serializeProps n env rand typeDefinitions props st1 visited
                       (objSet acc (getName prop) v) of
                  (r, st', w2) \<Rightarrow> (r, st', w1 @ w2))))"

section \<open>The run: registry, actions, document\<close>

text \<open>
  What the scan of the syntax trees hands over: the exported type aliases and interfaces
  in the order met (\<^verbatim>\<open>collectTypeDefinitions\<close> stores them with \<^verbatim>\<open>Map.set\<close>, so a
  later declaration of a name replaces the entry and keeps its place), and the exported
  function declarations with their leading comments and parameters.
\<close>

definition collectTypeDefinitions :: "typeInfo list \<Rightarrow> typeDefinitions" where
  "collectTypeDefinitions decls = foldl (\<lambda>m d. objSet m (ti_name d) d) [] decls"

record registryEntry =
  re_structure :: schema
  re_file :: string

type_synonym typeRegistry = "(string \<times> registryEntry) list"

text \<open>Lines 120 to 135. An exception of \<^verbatim>\<open>serializeType\<close> is not caught here.\<close>

fun expandRegistry ::
  "nat \<Rightarrow> env \<Rightarrow> (nat \<Rightarrow> string) \<Rightarrow> typeDefinitions \<Rightarrow> (string \<times> typeInfo) list \<Rightarrow> state
     \<Rightarrow> typeRegistry \<Rightarrow> (exn + typeRegistry) \<times> state \<times> warning list"
where
  "expandRegistry n env rand typeDefinitions [] st typeRegistry = (Inr typeRegistry, st, [])"
| "expandRegistry n env rand typeDefinitions ((typeName, info) # rest) st typeRegistry =
     (if typeName \<in> processedTypes st
      then expandRegistry n env rand typeDefinitions rest st typeRegistry
      else
        (case serializeType n env rand typeDefinitions (Some (ti_type info)) st {} of
           (Inl e, st1, w1) \<Rightarrow> (Inl e, st1, w1)
         | (Inr typeStructure, st1, w1) \<Rightarrow>
             (case expandRegistry n env rand typeDefinitions rest st1
                     (objSet typeRegistry typeName
                        \<lparr>re_structure = typeStructure, re_file = ti_file info\<rparr>) of
                (r, st2, w2) \<Rightarrow> (r, st2, w1 @ w2))))"

subsection \<open>The description of an action (lines 158 to 165 and 203)\<close>

fun strIncludes :: "string \<Rightarrow> string \<Rightarrow> bool" where
  "strIncludes [] pat = (pat = [])"
| "strIncludes (c # cs) pat = (take (length pat) (c # cs) = pat \<or> strIncludes cs pat)"

text \<open>\<^verbatim>\<open>s.replace(pat, '')\<close> with a string pattern: the first occurrence only.\<close>

fun replaceFirst :: "string \<Rightarrow> string \<Rightarrow> string" where
  "replaceFirst pat [] = []"
| "replaceFirst pat (c # cs) =
     (if take (length pat) (c # cs) = pat then drop (length pat) (c # cs)
      else c # replaceFirst pat cs)"

text \<open>
  \<^verbatim>\<open>s.replace(/\/\*|\*\/|\/\//g, '')\<close>: one scan from the left; where one of the three
  pairs starts it is removed and the scan goes on behind it.
\<close>

definition isDelimiter :: "char \<Rightarrow> char \<Rightarrow> bool" where
  "isDelimiter c d \<longleftrightarrow>
     (c = CHR ''/'' \<and> d = CHR ''*'') \<or> (c = CHR ''*'' \<and> d = CHR ''/'') \<or> (c = CHR ''/'' \<and> d = CHR ''/'')"

fun stripDelimiters :: "string \<Rightarrow> string" where
  "stripDelimiters [] = []"
| "stripDelimiters [c] = [c]"
| "stripDelimiters (c # d # cs) =
     (if isDelimiter c d then stripDelimiters cs else c # stripDelimiters (d # cs))"

text \<open>\<^verbatim>\<open>trim()\<close>: the white space and line terminators of ECMAScript below 256.\<close>

definition isWhiteSpace :: "char \<Rightarrow> bool" where
  "isWhiteSpace c \<longleftrightarrow> c \<in> set [CHR 0x09, CHR 0x0A, CHR 0x0B, CHR 0x0C, CHR 0x0D, CHR 0x20, CHR 0xA0]"

definition trim :: "string \<Rightarrow> string" where
  "trim s = rev (dropWhile isWhiteSpace (rev (dropWhile isWhiteSpace s)))"

definition marker :: string where
  "marker = ''@abra-action''"

record tsParameter =
  paramName :: string
  paramTypeText :: "string option"
  paramType :: "nat option"

record functionDeclaration =
  functionName :: string
  leadingComments :: "string list"
  fnParameters :: "tsParameter list"
  fileName :: string

definition isAction :: "functionDeclaration \<Rightarrow> bool" where
  "isAction node \<longleftrightarrow> list_ex (\<lambda>comment. strIncludes comment marker) (leadingComments node)"

definition descriptionOf :: "string \<Rightarrow> string" where
  "descriptionOf commentText = trim (stripDelimiters (replaceFirst marker commentText))"

definition actionDescription :: "functionDeclaration \<Rightarrow> string" where
  "actionDescription node =
     (case find (\<lambda>comment. strIncludes comment marker) (leadingComments node) of
        None \<Rightarrow> ''Execute '' @ functionName node
      | Some commentText \<Rightarrow>
          if descriptionOf commentText = [] then ''Execute '' @ functionName node
          else descriptionOf commentText)"

subsection \<open>Parameters and actions (lines 140 to 213), document (line 215)\<close>

record action =
  name :: string
  description :: string
  parameters :: "(string \<times> schema) list"
  module :: string

record document =
  actions :: "action list"
  typeAliases :: typeRegistry

fun serializeParameters ::
  "nat \<Rightarrow> env \<Rightarrow> (nat \<Rightarrow> string) \<Rightarrow> typeDefinitions \<Rightarrow> typeRegistry \<Rightarrow> tsParameter list \<Rightarrow> state
     \<Rightarrow> (string \<times> schema) list \<Rightarrow> (exn + (string \<times> schema) list) \<times> state \<times> warning list"
where
  "serializeParameters n env rand typeDefinitions typeRegistry [] st acc = (Inr acc, st, [])"
| "serializeParameters n env rand typeDefinitions typeRegistry (param # params) st acc =
     (case (case paramTypeText param of
              Some typeName \<Rightarrow> map_of typeRegistry typeName
            | None \<Rightarrow> None) of
        Some entry \<Rightarrow>
          serializeParameters n env rand typeDefinitions typeRegistry params st
            (objSet acc (paramName param) (re_structure entry))
      | None \<Rightarrow>
          (case serializeType n env rand typeDefinitions (paramType param) st {} of
             (Inl e, st1, w1) \<Rightarrow> (Inl e, st1, w1)
           | (Inr v, st1, w1) \<Rightarrow>
               (case serializeParameters n env rand typeDefinitions typeRegistry params st1
                       (objSet acc (paramName param) v) of
                  (r, st2, w2) \<Rightarrow> (r, st2, w1 @ w2))))"

fun extractActions ::
  "nat \<Rightarrow> env \<Rightarrow> (nat \<Rightarrow> string) \<Rightarrow> typeDefinitions \<Rightarrow> typeRegistry \<Rightarrow> functionDeclaration list
     \<Rightarrow> state \<Rightarrow> (exn + action list) \<times> state \<times> warning list"
where
  "extractActions n env rand typeDefinitions typeRegistry [] st = (Inr [], st, [])"
| "extractActions n env rand typeDefinitions typeRegistry (node # nodes) st =
     (if isAction node then
        (case serializeParameters n env rand typeDefinitions typeRegistry (fnParameters node) st [] of
           (Inl e, st1, w1) \<Rightarrow> (Inl e, st1, w1)
         | (Inr ps, st1, w1) \<Rightarrow>
             (case extractActions n env rand typeDefinitions typeRegistry nodes st1 of
                (Inl e, st2, w2) \<Rightarrow> (Inl e, st2, w1 @ w2)
              | (Inr as, st2, w2) \<Rightarrow>
                  (Inr (\<lparr>name = functionName node, description = actionDescription node,
                          parameters = ps, module = fileName node\<rparr> # as), st2, w1 @ w2)))
      else extractActions n env rand typeDefinitions typeRegistry nodes st)"

definition initialState :: state where
  "initialState = \<lparr>processedTypes = {}, randomCalls = 0\<rparr>"

text \<open>
  \<^verbatim>\<open>generateActionsJson\<close> up to the document handed to \<^verbatim>\<open>JSON.stringify\<close>, which
  is a function of it. Every call of \<^verbatim>\<open>serializeType\<close> from it starts with \<open>n\<close>
  frames. Names of types and parameters are taken not to be names of members of
  \<^verbatim>\<open>Object.prototype\<close>.
\<close>

definition generateActionsJson ::
  "nat \<Rightarrow> env \<Rightarrow> (nat \<Rightarrow> string) \<Rightarrow> typeInfo list \<Rightarrow> functionDeclaration list
     \<Rightarrow> (exn + document) \<times> warning list"
where
  "generateActionsJson n env rand decls nodes =
     (let typeDefinitions = collectTypeDefinitions decls in
      case expandRegistry n env rand typeDefinitions typeDefinitions initialState [] of
        (Inl e, st1, w1) \<Rightarrow> (Inl e, w1)
      | (Inr typeRegistry, st1, w1) \<Rightarrow>
          (case extractActions n env rand typeDefinitions typeRegistry nodes st1 of
             (Inl e, st2, w2) \<Rightarrow> (Inl e, w1 @ w2)
           | (Inr as, st2, w2) \<Rightarrow>
               (Inr \<lparr>actions = as, typeAliases = typeRegistry\<rparr>, w1 @ w2)))"

section \<open>Notions used in the properties\<close>

text \<open>
  A type object has a stable identity when line 224 finds one without
  \<^verbatim>\<open>Math.random()\<close>: a non-zero \<^verbatim>\<open>type.id\<close>, or else a non-zero \<^verbatim>\<open>type.symbol.id\<close>.
  \<open>stableId\<close> is that identity.
\<close>

definition stableIdentity :: "tsType \<Rightarrow> bool" where
  "stableIdentity t \<longleftrightarrow> tid t \<noteq> 0 \<or> (case symbol t of None \<Rightarrow> False | Some s \<Rightarrow> sid s \<noteq> 0)"

definition stableId :: "tsType \<Rightarrow> typeId" where
  "stableId t = NumId (if tid t \<noteq> 0 then tid t else (case symbol t of None \<Rightarrow> 0 | Some s \<Rightarrow> sid s))"








text \<open>The value and the warnings of a call, without the state it leaves.\<close>

definition outcome :: "'a \<times> state \<times> warning list \<Rightarrow> 'a \<times> warning list" where
  "outcome x = (fst x, snd (snd x))"

text \<open>
  A call has met the end of the stack when it throws the \<^verbatim>\<open>RangeError\<close> or has written
  a warning with its message.
\<close>

definition warnsExhaustion :: "warning list \<Rightarrow> bool" where
  "warnsExhaustion w \<longleftrightarrow> WarnProperty stackExhausted \<in> set w \<or> WarnArray stackExhausted \<in> set w"

definition exhausted :: "(exn + 'a) \<times> state \<times> warning list \<Rightarrow> bool" where
  "exhausted x \<longleftrightarrow> fst x = Inl (Exn stackExhausted) \<or> warnsExhaustion (snd (snd x))"


text \<open>
  The types \<^verbatim>\<open>undefined\<close> and \<^verbatim>\<open>null\<close> of the checker. A handle reaches the union rule
  when the rules before it do not apply: here it has a stable identity, no primitive flag,
  is no literal and has no symbol. \<open>optionalUnion env u t z\<close>: the type object at \<open>u\<close> is
  the union of exactly two members, the type at \<open>t\<close>, which is not a union and neither
  null nor undefined, and \<^verbatim>\<open>undefined\<close> or \<^verbatim>\<open>null\<close> at \<open>z\<close>, in either order; both have
  stable identities and no other type object has the identity of the union.
\<close>

definition nullish :: "tsType \<Rightarrow> bool" where
  "nullish t \<longleftrightarrow> (flags t = TypeFlags_Undefined \<or> flags t = TypeFlags_Null) \<and> \<not> isStringLiteral t"

definition reachesUnionRule :: "tsType \<Rightarrow> bool" where
  "reachesUnionRule t \<longleftrightarrow>
     stableIdentity t \<and> primitiveTag t = None \<and> \<not> isLiteral t \<and> symbol t = None \<and> isUnion t"

definition optionalUnion :: "env \<Rightarrow> nat \<Rightarrow> nat \<Rightarrow> nat \<Rightarrow> bool" where
  "optionalUnion env u t z \<longleftrightarrow>
     reachesUnionRule (env u)
     \<and> (types (env u) = [t, z] \<or> types (env u) = [z, t]) \<and> nullish (env z)
     \<and> flags (env t) AND TypeFlags_Undefined = 0 \<and> flags (env t) AND TypeFlags_Null = 0
     \<and> \<not> isUnion (env t) \<and> stableIdentity (env t)
     \<and> (\<forall>a. a \<noteq> u \<longrightarrow> stableId (env a) \<noteq> stableId (env u))"






text \<open>
  The checker keeps the members of a union type sorted by type id, whatever the order in
  which the declaration lists them.
\<close>

definition checkerUnionOrder :: "env \<Rightarrow> nat list \<Rightarrow> nat list" where
  "checkerUnionOrder env declared = sort_key (\<lambda>m. tid (env m)) declared"

section \<open>Example projects\<close>

definition TypeFlags_Object :: "32 word" where "TypeFlags_Object = 524288"
definition TypeFlags_Union :: "32 word" where "TypeFlags_Union = 1048576"
definition TypeFlags_StringLiteral :: "32 word" where "TypeFlags_StringLiteral = 128"

text \<open>A type object with the given \<^verbatim>\<open>id\<close>, flags and text, and nothing else.\<close>

definition plainType :: "nat \<Rightarrow> 32 word \<Rightarrow> string \<Rightarrow> tsType" where
  "plainType i f txt =
     \<lparr>tid = i, symbol = None, flags = f, isLiteral = False, isStringLiteral = False,
      isNumberLiteral = False, tvalue = LitStr [], intrinsicName = [], isUnion = False,
      types = [], isArrayType = False, getTypeArguments = Inr [], hasGetProperties = True,
      getProperties = Inr [], callSignatures = 0, typeToString = txt\<rparr>"

definition dataProp :: "string \<Rightarrow> nat \<Rightarrow> tsProp" where
  "dataProp k a =
     \<lparr>getName = k, valueDeclaration = True, getTypeOfSymbol = Inr (Some a),
      getTypeOfSymbolAtLocation = Inr (Some a)\<rparr>"

definition interfaceType :: "nat \<Rightarrow> string \<Rightarrow> tsProp list \<Rightarrow> tsType" where
  "interfaceType i nm props =
     (plainType i TypeFlags_Object nm)
       \<lparr>symbol := Some \<lparr>sname = nm, sid = i\<rparr>, getProperties := Inr props\<rparr>"

definition stringLiteralType :: "nat \<Rightarrow> string \<Rightarrow> tsType" where
  "stringLiteralType i s =
     (plainType i TypeFlags_StringLiteral s)
       \<lparr>isLiteral := True, isStringLiteral := True, tvalue := LitStr s\<rparr>"

text \<open>
  A boolean literal type as the compiler API presents it: the flag
  \<^verbatim>\<open>BooleanLiteral\<close> alone, \<^verbatim>\<open>intrinsicName\<close> \<^verbatim>\<open>'true'\<close> or \<^verbatim>\<open>'false'\<close>, no symbol,
  and \<^verbatim>\<open>isLiteral()\<close> false, since that method tests the string, number and bigint literal
  flags only. Its properties are those of the global \<^verbatim>\<open>Boolean\<close> interface: the method
  \<^verbatim>\<open>valueOf\<close>, whose type is at the address \<open>m\<close>.
\<close>

definition booleanLiteralType :: "nat \<Rightarrow> string \<Rightarrow> nat \<Rightarrow> tsType" where
  "booleanLiteralType i nm m =
     (plainType i TypeFlags_BooleanLiteral nm)
       \<lparr>intrinsicName := nm, getProperties := Inr [dataProp ''valueOf'' m]\<rparr>"

definition methodType :: "nat \<Rightarrow> tsType" where
  "methodType i = (plainType i TypeFlags_Object ''() => boolean'')\<lparr>callSignatures := 1\<rparr>"

definition noRandom :: "nat \<Rightarrow> string" where
  "noRandom k = []"

text \<open>The literal type \<^verbatim>\<open>true\<close>.\<close>

definition trueEnv :: env where
  "trueEnv = (\<lambda>a. plainType (Suc a) TypeFlags_Object ''() => boolean'')
     (0 := booleanLiteralType 1 ''true'' 1,
      1 := methodType 2)"

text \<open>
  \<^verbatim>\<open>export interface A { b: B }\<close> followed by \<^verbatim>\<open>export interface B { x: string }\<close>.
\<close>

definition nestedEnv :: env where
  "nestedEnv = (\<lambda>a. plainType (Suc a) TypeFlags_String ''string'')
     (0 := interfaceType 1 ''A'' [dataProp ''b'' 1],
      1 := interfaceType 2 ''B'' [dataProp ''x'' 2])"

definition nestedDecls :: "typeInfo list" where
  "nestedDecls = [\<lparr>ti_name = ''A'', ti_type = 0, ti_file = ''src/a.ts''\<rparr>,
                  \<lparr>ti_name = ''B'', ti_type = 1, ti_file = ''src/a.ts''\<rparr>]"










text \<open>
  \<^verbatim>\<open>type Colour = 'red' | 'green' | 'blue'\<close>; and the same declaration behind
  \<^verbatim>\<open>type First = 'blue'\<close>, where the literal \<^verbatim>\<open>'blue'\<close> (address 1) has the smallest
  type id and the declared members are the addresses 2, 3, 1.
\<close>

definition colourEnv :: env where
  "colourEnv = (\<lambda>a. plainType (Suc a) TypeFlags_String ''string'')
     (0 := (plainType 1 TypeFlags_Union ''Colour'')\<lparr>isUnion := True, types := [1, 2, 3]\<rparr>,
      1 := stringLiteralType 2 ''red'',
      2 := stringLiteralType 3 ''green'',
      3 := stringLiteralType 4 ''blue'')"

definition colourLiterals :: env where
  "colourLiterals = (\<lambda>a. plainType (Suc a) TypeFlags_String ''string'')
     (1 := stringLiteralType 2 ''blue'',
      2 := stringLiteralType 3 ''red'',
      3 := stringLiteralType 4 ''green'')"

definition colourPriorEnv :: env where
  "colourPriorEnv = colourLiterals
     (0 := (plainType 5 TypeFlags_Union ''Colour'')
             \<lparr>isUnion := True, types := checkerUnionOrder colourLiterals [2, 3, 1]\<rparr>)"



text \<open>
  \<^verbatim>\<open>export interface Point { x: number; next?: Point }\<close>: the type of \<open>next\<close> is the
  union \<^verbatim>\<open>Point | undefined\<close> at address 0. Address 4 holds \<^verbatim>\<open>null | undefined\<close>.
\<close>

definition pointEnv :: env where
  "pointEnv = (\<lambda>a. plainType (Suc a) TypeFlags_Number ''number'')
     (0 := (plainType 1 TypeFlags_Union ''Point | undefined'')\<lparr>isUnion := True, types := [1, 2]\<rparr>,
      1 := plainType 2 TypeFlags_Undefined ''undefined'',
      2 := interfaceType 3 ''Point'' [dataProp ''x'' 3, dataProp ''next'' 0],
      4 := (plainType 5 TypeFlags_Union ''null | undefined'')\<lparr>isUnion := True, types := [5, 1]\<rparr>,
      5 := plainType 6 TypeFlags_Null ''null'')"

definition pointDefs :: typeDefinitions where
  "pointDefs = [(''Point'', \<lparr>ti_name = ''Point'', ti_type = 2, ti_file = ''src/point.ts''\<rparr>)]"

text \<open>
  \<^verbatim>\<open>boolean\<close> and \<^verbatim>\<open>boolean | undefined\<close>. The checker presents \<^verbatim>\<open>boolean\<close> (address
  4) as the union of the literals \<^verbatim>\<open>false\<close> and \<^verbatim>\<open>true\<close> with the flag
  \<^verbatim>\<open>Boolean\<close>, and \<^verbatim>\<open>boolean | undefined\<close> (address 0) as the union of
  \<^verbatim>\<open>undefined\<close>, \<^verbatim>\<open>false\<close> and \<^verbatim>\<open>true\<close>.
\<close>

definition boolEnv :: env where
  "boolEnv = (\<lambda>a. methodType (Suc a))
     (0 := (plainType 1 TypeFlags_Union ''boolean | undefined'')
             \<lparr>isUnion := True, types := [1, 2, 3]\<rparr>,
      1 := plainType 2 TypeFlags_Undefined ''undefined'',
      2 := booleanLiteralType 3 ''false'' 5,
      3 := booleanLiteralType 4 ''true'' 5,
      4 := (plainType 5 (TypeFlags_Boolean OR TypeFlags_Union) ''boolean'')
             \<lparr>intrinsicName := ''boolean'', isUnion := True, types := [2, 3]\<rparr>)"




section \<open>Properties\<close>

lemmas classify_defs = typeIdOf_def classify_def primitiveTag_def literalValue_def namedStep_def
  classifyUnion_def classifyArray_def classifyObject_def propOutcome_def resolvePropType_def
  isBuiltInType_def arrayOf_def litSchema_def
  TypeFlags_Any_def TypeFlags_Unknown_def TypeFlags_String_def TypeFlags_Number_def
  TypeFlags_Boolean_def TypeFlags_BooleanLiteral_def TypeFlags_Undefined_def TypeFlags_Null_def

lemmas example_defs = plainType_def dataProp_def interfaceType_def stringLiteralType_def
  booleanLiteralType_def methodType_def noRandom_def initialState_def
  TypeFlags_Object_def TypeFlags_Union_def TypeFlags_StringLiteral_def

subsection \<open>The registry loop\<close>

text \<open>
  C3. The claim: every collected name has an entry in \<^verbatim>\<open>typeAliases\<close>, also a type first
  met as a nested reference. The code at \<^verbatim>\<open>interface A { b: B }\<close>,
  \<^verbatim>\<open>interface B { x: string }\<close>: expanding \<open>A\<close> puts \<open>B\<close> into \<^verbatim>\<open>processedTypes\<close>
  (line 254) without an entry in \<^verbatim>\<open>typeRegistry\<close>, and the loop then skips \<open>B\<close>
  (line 121). The document has no entry for \<open>B\<close>.
\<close>

theorem registry_misses_nested_type:
  "generateActionsJson (Suc (Suc (Suc n))) nestedEnv noRandom nestedDecls []
     = (Inr \<lparr>actions = [],
             typeAliases = [(''A'', \<lparr>re_structure = Obj [(''b'', Obj [(''x'', Str ''string'')])],
                                     re_file = ''src/a.ts''\<rparr>)]\<rparr>, [])"
  by (simp add: generateActionsJson_def collectTypeDefinitions_def nestedEnv_def nestedDecls_def
        classify_defs example_defs)

subsection \<open>Literals\<close>

text \<open>
  C4. The claim: a boolean literal handle yields its truth value. The code tests the flag
  \<^verbatim>\<open>BooleanLiteral\<close> only inside \<^verbatim>\<open>if (type.isLiteral && type.isLiteral())\<close>
  (lines 238 to 244), which is false for the type \<^verbatim>\<open>true\<close>; the call falls through
  to the generic object rule and returns the empty object.
\<close>

theorem boolean_literal_not_a_boolean:
  "serializeType (Suc (Suc n)) trueEnv noRandom [] (Some 0) initialState {}
     = (Inr (Obj []), initialState, [])"
  by (simp add: trueEnv_def classify_defs example_defs)

subsection \<open>The description of an action\<close>

lemma stripDelimiters_append:
  "a = [] \<or> last a \<notin> {CHR ''/'', CHR ''*''}
   \<Longrightarrow> stripDelimiters (a @ r) = stripDelimiters a @ stripDelimiters r"
proof (induction a rule: stripDelimiters.induct)
  case 1
  then show ?case by simp
next
  case (2 c)
  then show ?case by (cases r) (auto simp: isDelimiter_def)
next
  case (3 c d cs)
  then show ?case by (auto simp: isDelimiter_def split: if_splits)
qed

lemma replaceFirst_marker:
  "CHR ''@'' \<notin> set pre \<Longrightarrow> replaceFirst marker (pre @ marker @ post) = pre @ post"
  by (induction pre) (auto simp: marker_def)

text \<open>
  C10, as stated: every occurrence of \<^verbatim>\<open>/*\<close>, \<^verbatim>\<open>*/\<close> and \<^verbatim>\<open>//\<close> in the comment is
  deleted, so the description holds none. The regular expression is applied in one
  pass over matches that do not overlap: in \<^verbatim>\<open>**//\<close> the match \<^verbatim>\<open>*/\<close> takes the first
  slash, the \<^verbatim>\<open>//\<close> behind it is never matched, and the description of the line comment
  below still holds \<^verbatim>\<open>*/\<close>.
\<close>

theorem description_keeps_overlapping_delimiter:
  "descriptionOf ''// @abra-action see **// here'' = ''see */ here''
   \<and> strIncludes ''see */ here'' ''*/''"
  by (simp add: descriptionOf_def marker_def trim_def isWhiteSpace_def isDelimiter_def)

text \<open>
  C10, amended. An occurrence of a delimiter that does not directly follow a \<^verbatim>\<open>/\<close> or
  \<^verbatim>\<open>*\<close> is deleted wherever it stands in the text, not only at the ends; only the
  first occurrence of the marker is removed (the text behind it, \<open>post\<close>, keeps any
  further marker); and \<^verbatim>\<open>https://example.com\<close> comes out as \<^verbatim>\<open>https:example.com\<close>.
\<close>

theorem description_strips_delimiters:
  assumes "isDelimiter c d" and "a = [] \<or> last a \<notin> {CHR ''/'', CHR ''*''}"
    and "CHR ''@'' \<notin> set pre"
  shows "stripDelimiters (a @ c # d # b) = stripDelimiters a @ stripDelimiters b
     \<and> descriptionOf (pre @ marker @ post) = trim (stripDelimiters (pre @ post))
     \<and> descriptionOf ''// @abra-action see https://example.com @abra-action''
         = ''see https:example.com @abra-action''"
proof -
  have "stripDelimiters (a @ c # d # b) = stripDelimiters a @ stripDelimiters (c # d # b)"
    using assms(2) by (rule stripDelimiters_append)
  moreover have "stripDelimiters (c # d # b) = stripDelimiters b"
    using assms(1) by simp
  moreover have "descriptionOf (pre @ marker @ post) = trim (stripDelimiters (pre @ post))"
    using assms(3) by (simp add: descriptionOf_def replaceFirst_marker)
  moreover have "descriptionOf ''// @abra-action see https://example.com @abra-action''
         = ''see https:example.com @abra-action''"
    by (simp add: descriptionOf_def marker_def trim_def isWhiteSpace_def isDelimiter_def)
  ultimately show ?thesis by simp
qed

text \<open>The amended C10 at the text \<^verbatim>\<open>https://example.com\<close> behind a line comment's marker.\<close>

theorem description_strips_delimiters_witness:
  "isDelimiter CHR ''/'' CHR ''/''
   \<and> (''https:'' = [] \<or> last ''https:'' \<notin> {CHR ''/'', CHR ''*''})
   \<and> CHR ''@'' \<notin> set ''// ''
   \<and> stripDelimiters (''https:'' @ CHR ''/'' # CHR ''/'' # ''example.com'') = ''https:example.com''
   \<and> descriptionOf (''// '' @ marker @ '' open https://example.com'') = ''open https:example.com''"
  using description_strips_delimiters [of "CHR ''/''" "CHR ''/''" "''https:''" "''// ''"
      "''example.com''" "'' open https://example.com''"]
  by (simp add: isDelimiter_def trim_def isWhiteSpace_def)

subsection \<open>The random token and the determinism of a run\<close>

lemma typeIdOf_stable: "stableIdentity t \<Longrightarrow> typeIdOf rand t st = (stableId t, st)"
  by (auto simp: stableIdentity_def stableId_def typeIdOf_def split: option.splits)










subsection \<open>The loop over the properties\<close>





subsection \<open>Unions of string literals\<close>

text \<open>
  C6, as stated: the members come out in declaration order. The checker keeps the members
  of a union sorted by type id. In \<^verbatim>\<open>type First = 'blue'\<close> followed by
  \<^verbatim>\<open>type Colour = 'red' | 'green' | 'blue'\<close> the literal \<^verbatim>\<open>'blue'\<close> is the oldest
  type object, \<^verbatim>\<open>type.types\<close> of \<open>Colour\<close> begins with it, and the array is
  \<open>blue, red, green\<close>, while the declaration lists \<open>red, green, blue\<close>.
\<close>

theorem string_literal_union_not_in_declaration_order:
  "serializeType (Suc 0) colourPriorEnv noRandom [] (Some 0) initialState {}
     = (Inr (Arr [Str ''blue'', Str ''red'', Str ''green'']), initialState, [])
   \<and> map (\<lambda>m. litSchema (tvalue (colourPriorEnv m))) [2, 3, 1]
       = [Str ''red'', Str ''green'', Str ''blue'']"
  by (simp add: colourPriorEnv_def colourLiterals_def checkerUnionOrder_def classify_defs example_defs)

text \<open>
  C6, amended. A union handle that reaches the union rule (it is not on the visited path,
  has no primitive flag, is no literal, and its symbol names no unprocessed entry of the
  registry) and whose members are all string literals yields the sequence of the
  members' literal values, in the order of \<^verbatim>\<open>type.types\<close>.
\<close>

theorem string_literal_union_is_enum:
  assumes "fst (typeIdOf rand (env a) st) \<notin> V"
    and "primitiveTag (env a) = None" and "\<not> isLiteral (env a)"
    and "fst (namedStep env defs (env a) (snd (typeIdOf rand (env a) st))) = None"
    and "isUnion (env a)"
    and "list_all (\<lambda>m. isStringLiteral (env m)) (types (env a))"
    and "map (\<lambda>m. tvalue (env m)) (types (env a)) = map LitStr vs"
  shows "\<exists>st'. serializeType (Suc n) env rand defs (Some a) st V = (Inr (Arr (map Str vs)), st', [])"
proof -
  obtain i st1 where ti: "typeIdOf rand (env a) st = (i, st1)" by (cases "typeIdOf rand (env a) st")
  obtain st2 where ns: "namedStep env defs (env a) st1 = (None, st2)"
    using assms(4) ti by (cases "namedStep env defs (env a) st1") auto
  have "map litSchema (map (\<lambda>m. tvalue (env m)) (types (env a))) = map litSchema (map LitStr vs)"
    using assms(7) by simp
  then have vals: "map (\<lambda>m. litSchema (tvalue (env m))) (types (env a)) = map Str vs"
    by (simp add: litSchema_def comp_def)
  have "classify env defs (env a) st1 = (Done (Inr (Arr (map Str vs))) [], st2)"
    using assms(2,3,5,6) ns vals by (simp add: classify_def literalValue_def classifyUnion_def)
  with ti assms(1) show ?thesis by simp
qed

text \<open>
  The amended C6 at \<^verbatim>\<open>'red' | 'green' | 'blue'\<close>.
\<close>

theorem string_literal_union_is_enum_witness:
  "fst (typeIdOf noRandom (colourEnv 0) initialState) \<notin> {}
   \<and> primitiveTag (colourEnv 0) = None \<and> \<not> isLiteral (colourEnv 0)
   \<and> fst (namedStep colourEnv [] (colourEnv 0) (snd (typeIdOf noRandom (colourEnv 0) initialState))) = None
   \<and> isUnion (colourEnv 0)
   \<and> list_all (\<lambda>m. isStringLiteral (colourEnv m)) (types (colourEnv 0))
   \<and> map (\<lambda>m. tvalue (colourEnv m)) (types (colourEnv 0)) = map LitStr [''red'', ''green'', ''blue'']
   \<and> serializeType 1 colourEnv noRandom [] (Some 0) initialState {}
        = (Inr (Arr [Str ''red'', Str ''green'', Str ''blue'']), initialState, [])"
  using string_literal_union_is_enum [of noRandom colourEnv 0 initialState "{}" "[]" "[''red'', ''green'', ''blue'']" 0]
  by (simp add: colourEnv_def classify_defs example_defs)

subsection \<open>Failures inside the loops\<close>



subsection \<open>Self-reference and the cycle guard\<close>









subsection \<open>Exceptions that leave the serializer\<close>








subsection \<open>Unwrapping optional and nullable unions\<close>

lemma exhausted_simps:
  "exhausted (r, st, w) \<longleftrightarrow> r = Inl (Exn stackExhausted) \<or> warnsExhaustion w"
  by (simp add: exhausted_def)

lemma warnsExhaustion_simps [simp]:
  "\<not> warnsExhaustion []"
  "warnsExhaustion (w1 @ w2) \<longleftrightarrow> warnsExhaustion w1 \<or> warnsExhaustion w2"
  "warnsExhaustion (WarnProperty msg # w) \<longleftrightarrow> msg = stackExhausted \<or> warnsExhaustion w"
  "warnsExhaustion (WarnArray msg # w) \<longleftrightarrow> msg = stackExhausted \<or> warnsExhaustion w"
  by (auto simp: warnsExhaustion_def)

lemma serializeProps_transfer:
  assumes "\<And>h st. \<not> exhausted (serializeType n env rand defs h st V)
             \<Longrightarrow> serializeType n' env rand defs h st V' = serializeType n env rand defs h st V"
  shows "\<not> warnsExhaustion (snd (snd (serializeProps n env rand defs ps st V acc)))
         \<Longrightarrow> serializeProps n' env rand defs ps st V' acc = serializeProps n env rand defs ps st V acc"
proof (induction ps arbitrary: st acc)
  case Nil
  then show ?case by simp
next
  case (Cons p ps)
  show ?case
  proof (cases "propOutcome env p")
    case Skip
    with Cons show ?thesis by simp
  next
    case (Throw msg)
    with Cons.prems have "\<not> warnsExhaustion (snd (snd (serializeProps n env rand defs ps st V acc)))"
      by (simp split: prod.splits)
    with Cons.IH Throw show ?thesis by simp
  next
    case (Resolve h)
    obtain x st1 w1 where call: "serializeType n env rand defs h st V = (x, st1, w1)"
      by (cases "serializeType n env rand defs h st V")
    show ?thesis
    proof (cases x)
      case (Inl e)
      obtain msg where e: "e = Exn msg" by (cases e)
      from Cons.prems Resolve call Inl e
      have clean: "\<not> warnsExhaustion w1" "msg \<noteq> stackExhausted"
        and rest: "\<not> warnsExhaustion (snd (snd (serializeProps n env rand defs ps st1 V acc)))"
        by (auto split: prod.splits)
      from clean call Inl e have "\<not> exhausted (serializeType n env rand defs h st V)"
        by (simp add: exhausted_simps)
      then have "serializeType n' env rand defs h st V' = (x, st1, w1)"
        using call by (simp add: assms)
      with Cons.IH [OF rest] Resolve call Inl e show ?thesis by simp
    next
      case (Inr v)
      from Cons.prems Resolve call Inr
      have clean: "\<not> warnsExhaustion w1"
        and rest: "\<not> warnsExhaustion (snd (snd (serializeProps n env rand defs ps st1 V
                       (objSet acc (getName p) v))))"
        by (auto split: prod.splits)
      from clean call Inr have "\<not> exhausted (serializeType n env rand defs h st V)"
        by (simp add: exhausted_simps)
      then have "serializeType n' env rand defs h st V' = (x, st1, w1)"
        using call by (simp add: assms)
      with Cons.IH [OF rest] Resolve call Inr show ?thesis by simp
    qed
  qed
qed

lemma serializeType_transfer:
  assumes children: "\<And>h st. \<not> exhausted (serializeType n env rand defs h st
                                   (insert (fst (typeIdOf rand (env a) st0)) V))
             \<Longrightarrow> serializeType n' env rand defs h st (insert (fst (typeIdOf rand (env a) st0)) V')
                 = serializeType n env rand defs h st (insert (fst (typeIdOf rand (env a) st0)) V)"
    and same: "fst (typeIdOf rand (env a) st0) \<in> V \<longleftrightarrow> fst (typeIdOf rand (env a) st0) \<in> V'"
  shows "\<not> exhausted (serializeType (Suc n) env rand defs (Some a) st0 V)
         \<Longrightarrow> serializeType (Suc n') env rand defs (Some a) st0 V'
             = serializeType (Suc n) env rand defs (Some a) st0 V"
proof -
  assume run: "\<not> exhausted (serializeType (Suc n) env rand defs (Some a) st0 V)"
  obtain i st1 where ti: "typeIdOf rand (env a) st0 = (i, st1)" by (cases "typeIdOf rand (env a) st0")
  obtain stp st2 where cl: "classify env defs (env a) st1 = (stp, st2)"
    by (cases "classify env defs (env a) st1")
  note ch = children [unfolded ti fst_conv]
  show ?thesis
  proof (cases "i \<in> V")
    case True
    with same ti show ?thesis by simp
  next
    case False
    with same ti have notin: "i \<notin> V'" by simp
    show ?thesis
    proof (cases stp)
      case (Done x w)
      with ti cl False notin show ?thesis by simp
    next
      case (Properties ps)
      with run ti cl False
      have "\<not> warnsExhaustion (snd (snd (serializeProps n env rand defs ps st2 (insert i V) [])))"
        by (simp add: exhausted_def split: prod.splits)
      then have "serializeProps n' env rand defs ps st2 (insert i V') []
                  = serializeProps n env rand defs ps st2 (insert i V) []"
        by (rule serializeProps_transfer [rotated]) (rule ch)
      with ti cl False notin Properties show ?thesis by simp
    next
      case (Member m)
      with run ti cl False have "\<not> exhausted (serializeType n env rand defs (Some m) st2 (insert i V))"
        by simp
      then have "serializeType n' env rand defs (Some m) st2 (insert i V')
                  = serializeType n env rand defs (Some m) st2 (insert i V)" by (rule ch)
      with ti cl False notin Member show ?thesis by simp
    next
      case (Element e)
      with run ti cl False have "\<not> exhausted (serializeType n env rand defs e st2 (insert i V))"
        by (auto simp: exhausted_def split: prod.splits sum.splits exn.splits)
      then have "serializeType n' env rand defs e st2 (insert i V')
                  = serializeType n env rand defs e st2 (insert i V)" by (rule ch)
      with ti cl False notin Element show ?thesis by simp
    qed
  qed
qed

lemma typeIdOf_other:
  assumes "stableIdentity (env u)" and "stableId (env a) \<noteq> stableId (env u)"
  shows "fst (typeIdOf rand (env a) st) \<noteq> stableId (env u)"
  using assms
  by (auto simp: typeIdOf_def stableId_def stableIdentity_def split: option.splits if_splits)

lemma optionalUnion_classify:
  assumes "optionalUnion env u t z"
  shows "classify env defs (env u) st = (Member t, st)"
proof -
  from assms have "classifyUnion env (env u) = Member t"
    by (auto simp: optionalUnion_def nullish_def classifyUnion_def
          TypeFlags_Undefined_def TypeFlags_Null_def TypeFlags_BooleanLiteral_def)
  with assms show ?thesis
    by (simp add: optionalUnion_def reachesUnionRule_def classify_def literalValue_def namedStep_def)
qed

lemma optionalUnion_on_path:
  assumes "optionalUnion env u t z" and "stableId (env u) \<notin> V" and "stableId (env t) \<in> V"
  shows "serializeType (Suc (Suc n)) env rand defs (Some u) st V = (Inr (Str ''any''), st, [])"
  using assms optionalUnion_classify [OF assms(1)]
  by (simp add: optionalUnion_def reachesUnionRule_def typeIdOf_stable)

lemma unwrap_adds_identity:
  assumes opt: "optionalUnion env u t z"
  shows "stableId (env u) \<notin> V \<Longrightarrow> stableId (env t) \<in> V \<or> h = Some t
    \<Longrightarrow> \<not> exhausted (serializeType n env rand defs h st (insert (stableId (env u)) V))
    \<Longrightarrow> serializeType (Suc n) env rand defs h st V
        = serializeType n env rand defs h st (insert (stableId (env u)) V)"
proof (induction n arbitrary: h st V)
  case 0
  then show ?case by (simp add: exhausted_def)
next
  case (Suc n)
  from opt have su: "stableIdentity (env u)" and st: "stableIdentity (env t)"
    and tu: "t \<noteq> u"
    by (auto simp: optionalUnion_def reachesUnionRule_def)
  show ?case
  proof (cases h)
    case None
    then show ?thesis by simp
  next
    case (Some a)
    show ?thesis
    proof (cases "a = u")
      case True
      with Some Suc.prems(2) tu have "stableId (env t) \<in> V" by simp
      with opt Suc.prems(1) have "serializeType (Suc (Suc n)) env rand defs (Some u) st V
          = (Inr (Str ''any''), st, [])"
        by (rule optionalUnion_on_path)
      moreover from su have "serializeType (Suc n) env rand defs (Some u) st (insert (stableId (env u)) V)
          = (Inr (Str ''any''), st, [])"
        by (simp add: typeIdOf_stable)
      ultimately show ?thesis using Some True by simp
    next
      case False
      let ?i = "fst (typeIdOf rand (env a) st)"
      from opt False have "stableId (env a) \<noteq> stableId (env u)" by (simp add: optionalUnion_def)
      with su have ne: "?i \<noteq> stableId (env u)" by (rule typeIdOf_other)
      have path: "stableId (env t) \<in> insert ?i V \<or> h' = Some t" for h'
        using Suc.prems(2) Some st by (auto simp: typeIdOf_stable)
      have "serializeType (Suc (Suc n)) env rand defs (Some a) st V
          = serializeType (Suc n) env rand defs (Some a) st (insert (stableId (env u)) V)"
      proof (rule serializeType_transfer [where n = n and V = "insert (stableId (env u)) V"])
        fix h' st'
        assume "\<not> exhausted (serializeType n env rand defs h' st' (insert ?i (insert (stableId (env u)) V)))"
        then have *: "\<not> exhausted (serializeType n env rand defs h' st' (insert (stableId (env u)) (insert ?i V)))"
          by (simp add: insert_commute)
        have "serializeType (Suc n) env rand defs h' st' (insert ?i V)
            = serializeType n env rand defs h' st' (insert (stableId (env u)) (insert ?i V))"
          using Suc.prems(1) ne path * by (intro Suc.IH) auto
        then show "serializeType (Suc n) env rand defs h' st' (insert ?i V)
            = serializeType n env rand defs h' st' (insert ?i (insert (stableId (env u)) V))"
          by (simp add: insert_commute)
      next
        show "?i \<in> insert (stableId (env u)) V \<longleftrightarrow> ?i \<in> V" using ne by simp
      next
        show "\<not> exhausted (serializeType (Suc n) env rand defs (Some a) st (insert (stableId (env u)) V))"
          using Suc.prems(3) Some by simp
      qed
      with Some show ?thesis by simp
    qed
  qed
qed

lemma unwrap_drops_identity:
  assumes opt: "optionalUnion env u t z"
  shows "stableId (env u) \<notin> V \<Longrightarrow> stableId (env t) \<in> V \<or> h = Some t
    \<Longrightarrow> \<not> exhausted (serializeType n env rand defs h st V)
    \<Longrightarrow> serializeType n env rand defs h st (insert (stableId (env u)) V)
        = serializeType n env rand defs h st V"
proof (induction n arbitrary: h st V)
  case 0
  then show ?case by (simp add: exhausted_def)
next
  case (Suc n)
  from opt have su: "stableIdentity (env u)" and st: "stableIdentity (env t)"
    and tu: "t \<noteq> u"
    by (auto simp: optionalUnion_def reachesUnionRule_def)
  show ?case
  proof (cases h)
    case None
    then show ?thesis by simp
  next
    case (Some a)
    show ?thesis
    proof (cases "a = u")
      case True
      with Some Suc.prems(2) tu have onpath: "stableId (env t) \<in> V" by simp
      from Suc.prems(3) Some True Suc.prems(1) su optionalUnion_classify [OF opt]
      have inner: "\<not> exhausted (serializeType n env rand defs (Some t) st (insert (stableId (env u)) V))"
        and run: "serializeType (Suc n) env rand defs (Some u) st V
                   = serializeType n env rand defs (Some t) st (insert (stableId (env u)) V)"
        by (simp_all add: typeIdOf_stable)
      from inner obtain k where "n = Suc k" by (cases n) (auto simp: exhausted_def)
      with run onpath st have "serializeType (Suc n) env rand defs (Some u) st V = (Inr (Str ''any''), st, [])"
        by (simp add: typeIdOf_stable)
      with Some True su show ?thesis by (simp add: typeIdOf_stable)
    next
      case False
      let ?i = "fst (typeIdOf rand (env a) st)"
      from opt False have "stableId (env a) \<noteq> stableId (env u)" by (simp add: optionalUnion_def)
      with su have ne: "?i \<noteq> stableId (env u)" by (rule typeIdOf_other)
      have path: "stableId (env t) \<in> insert ?i V \<or> h' = Some t" for h'
        using Suc.prems(2) Some st by (auto simp: typeIdOf_stable)
      have "serializeType (Suc n) env rand defs (Some a) st (insert (stableId (env u)) V)
          = serializeType (Suc n) env rand defs (Some a) st V"
      proof (rule serializeType_transfer [where n = n and V = V])
        fix h' st'
        assume *: "\<not> exhausted (serializeType n env rand defs h' st' (insert ?i V))"
        have "serializeType n env rand defs h' st' (insert (stableId (env u)) (insert ?i V))
            = serializeType n env rand defs h' st' (insert ?i V)"
          using Suc.prems(1) ne path * by (intro Suc.IH) auto
        then show "serializeType n env rand defs h' st' (insert ?i (insert (stableId (env u)) V))
            = serializeType n env rand defs h' st' (insert ?i V)"
          by (simp add: insert_commute)
      next
        show "?i \<in> V \<longleftrightarrow> ?i \<in> insert (stableId (env u)) V" using ne by simp
      next
        show "\<not> exhausted (serializeType (Suc n) env rand defs (Some a) st V)"
          using Suc.prems(3) Some by simp
      qed
      with Some show ?thesis by simp
    qed
  qed
qed

text \<open>
  C7, as stated: for every non-union type T the union \<^verbatim>\<open>T | undefined\<close> is serialized
  as T is. For \<^verbatim>\<open>boolean\<close> the checker holds the union of the literals \<^verbatim>\<open>false\<close> and
  \<^verbatim>\<open>true\<close>, and for \<^verbatim>\<open>boolean | undefined\<close> the union of \<^verbatim>\<open>undefined\<close>,
  \<^verbatim>\<open>false\<close> and \<^verbatim>\<open>true\<close>: the code unwraps the latter to the literal \<^verbatim>\<open>false\<close>
  alone, which comes out as the empty object, while \<^verbatim>\<open>boolean\<close> comes out as the tag
  \<open>boolean\<close>.
\<close>

theorem optional_boolean_is_not_boolean:
  "\<forall>d. serializeType (Suc (Suc d)) boolEnv noRandom [] (Some 0) initialState {}
          = (Inr (Obj []), initialState, [])
        \<and> serializeType (Suc (Suc d)) boolEnv noRandom [] (Some 4) initialState {}
          = (Inr (Str ''boolean''), initialState, [])"
  by (simp add: boolEnv_def classify_defs example_defs)

text \<open>
  C7, amended. Let \<open>u\<close> be a union of exactly two members, a type \<open>t\<close> that is one
  type object, not a union, and \<^verbatim>\<open>undefined\<close> or \<^verbatim>\<open>null\<close>; let \<open>u\<close> and \<open>t\<close> have stable
  identities, \<open>u\<close> not on the visited path. Then the call for \<open>u\<close> with one frame more
  returns what the call for \<open>t\<close> returns (value, state and warnings), and the call for
  \<open>t\<close> returns what the call for \<open>u\<close> returns on the same stack, whenever the call on
  the right has not met the end of the stack; also when \<open>t\<close> refers back to \<open>u\<close>. And a
  union that reaches the union rule and whose members are all \<^verbatim>\<open>null\<close> or
  \<^verbatim>\<open>undefined\<close> yields \<open>any\<close>.
\<close>

theorem optional_union_is_its_member:
  assumes opt: "optionalUnion env u t z" and fresh: "stableId (env u) \<notin> V"
  shows "(\<not> exhausted (serializeType n env rand defs (Some t) st V)
            \<longrightarrow> serializeType (Suc n) env rand defs (Some u) st V
                = serializeType n env rand defs (Some t) st V)
     \<and> (\<not> exhausted (serializeType n env rand defs (Some u) st V)
            \<longrightarrow> serializeType n env rand defs (Some t) st V
                = serializeType n env rand defs (Some u) st V)
     \<and> (\<forall>w. reachesUnionRule (env w) \<and> stableId (env w) \<notin> V \<and> types (env w) \<noteq> []
             \<and> list_all (\<lambda>m. nullish (env m)) (types (env w))
           \<longrightarrow> serializeType (Suc 0) env rand defs (Some w) st V = (Inr (Str ''any''), st, []))"
proof -
  from opt have su: "stableIdentity (env u)" by (simp add: optionalUnion_def reachesUnionRule_def)
  have unwrap: "serializeType (Suc n) env rand defs (Some u) st V
      = serializeType n env rand defs (Some t) st (insert (stableId (env u)) V)" for n
    using su fresh optionalUnion_classify [OF opt] by (simp add: typeIdOf_stable)
  have "serializeType (Suc n) env rand defs (Some u) st V = serializeType n env rand defs (Some t) st V"
    if "\<not> exhausted (serializeType n env rand defs (Some t) st V)"
  proof -
    from opt fresh that
    have "serializeType n env rand defs (Some t) st (insert (stableId (env u)) V)
        = serializeType n env rand defs (Some t) st V"
      by (intro unwrap_drops_identity) auto
    with unwrap show ?thesis by simp
  qed
  moreover have "serializeType n env rand defs (Some t) st V = serializeType n env rand defs (Some u) st V"
    if "\<not> exhausted (serializeType n env rand defs (Some u) st V)"
  proof -
    from that obtain k where k: "n = Suc k" by (cases n) (auto simp: exhausted_def)
    with that unwrap
    have "\<not> exhausted (serializeType k env rand defs (Some t) st (insert (stableId (env u)) V))"
      by simp
    with opt fresh have "serializeType (Suc k) env rand defs (Some t) st V
        = serializeType k env rand defs (Some t) st (insert (stableId (env u)) V)"
      by (intro unwrap_adds_identity) auto
    with unwrap k show ?thesis by simp
  qed
  moreover have "serializeType (Suc 0) env rand defs (Some w) st V = (Inr (Str ''any''), st, [])"
    if w: "reachesUnionRule (env w)" "stableId (env w) \<notin> V" "types (env w) \<noteq> []"
      "list_all (\<lambda>m. nullish (env m)) (types (env w))" for w
  proof -
    obtain m ms where ms: "types (env w) = m # ms" using w(3) by (cases "types (env w)") auto
    have none: "find (\<lambda>m. flags (env m) AND TypeFlags_Undefined = 0
                          \<and> flags (env m) AND TypeFlags_Null = 0) (types (env w)) = None"
      using w(4)
      by (auto simp: find_None_iff list_all_iff nullish_def TypeFlags_Undefined_def TypeFlags_Null_def)
    from w(4) ms have "nullish (env m)" by simp
    then have "classifyUnion env (env w) = Done (Inr (Str ''any'')) []"
      using none ms
      by (auto simp: classifyUnion_def nullish_def TypeFlags_Undefined_def TypeFlags_Null_def
            TypeFlags_BooleanLiteral_def)
    with w(1,2) show ?thesis
      by (simp add: reachesUnionRule_def typeIdOf_stable classify_def literalValue_def namedStep_def)
  qed
  ultimately show ?thesis by blast
qed

text \<open>
  The amended C7 at \<^verbatim>\<open>Point | undefined\<close> and \<^verbatim>\<open>null | undefined\<close>.
\<close>

theorem optional_union_is_its_member_witness:
  "optionalUnion pointEnv 0 2 1 \<and> stableId (pointEnv 0) \<notin> {}
   \<and> \<not> exhausted (serializeType 3 pointEnv noRandom pointDefs (Some 2) initialState {})
   \<and> serializeType 3 pointEnv noRandom pointDefs (Some 2) initialState {}
       = (Inr (Obj [(''x'', Str ''number''), (''next'', Str ''any'')]),
          initialState\<lparr>processedTypes := {''Point''}\<rparr>, [])
   \<and> serializeType (Suc 3) pointEnv noRandom pointDefs (Some 0) initialState {}
       = (Inr (Obj [(''x'', Str ''number''), (''next'', Str ''any'')]),
          initialState\<lparr>processedTypes := {''Point''}\<rparr>, [])
   \<and> reachesUnionRule (pointEnv 4) \<and> stableId (pointEnv 4) \<notin> {} \<and> types (pointEnv 4) \<noteq> []
   \<and> list_all (\<lambda>m. nullish (pointEnv m)) (types (pointEnv 4))
   \<and> serializeType (Suc 0) pointEnv noRandom pointDefs (Some 4) initialState {}
       = (Inr (Str ''any''), initialState, [])"
proof -
  have opt: "optionalUnion pointEnv 0 2 1"
    by (simp add: optionalUnion_def reachesUnionRule_def nullish_def stableIdentity_def stableId_def
          pointEnv_def classify_defs example_defs)
  have fresh: "stableId (pointEnv 0) \<notin> {}" by simp
  have direct: "serializeType 3 pointEnv noRandom pointDefs (Some 2) initialState {}
       = (Inr (Obj [(''x'', Str ''number''), (''next'', Str ''any'')]),
          initialState\<lparr>processedTypes := {''Point''}\<rparr>, [])"
    by (simp add: pointEnv_def pointDefs_def classify_defs example_defs numeral_3_eq_3)
  then have clean: "\<not> exhausted (serializeType 3 pointEnv noRandom pointDefs (Some 2) initialState {})"
    by (simp add: exhausted_def warnsExhaustion_def)
  have nulls: "reachesUnionRule (pointEnv 4) \<and> stableId (pointEnv 4) \<notin> {} \<and> types (pointEnv 4) \<noteq> []
      \<and> list_all (\<lambda>m. nullish (pointEnv m)) (types (pointEnv 4))"
    by (simp add: reachesUnionRule_def nullish_def stableIdentity_def pointEnv_def classify_defs example_defs)
  note inst = optional_union_is_its_member [OF opt fresh, of 3 noRandom pointDefs initialState]
  from inst clean direct have "serializeType (Suc 3) pointEnv noRandom pointDefs (Some 0) initialState {}
       = (Inr (Obj [(''x'', Str ''number''), (''next'', Str ''any'')]),
          initialState\<lparr>processedTypes := {''Point''}\<rparr>, [])"
    by simp
  moreover from inst nulls have "serializeType (Suc 0) pointEnv noRandom pointDefs (Some 4) initialState {}
       = (Inr (Str ''any''), initialState, [])"
    by blast
  ultimately show ?thesis using opt fresh direct clean nulls by simp
qed

subsection \<open>Siblings that share a type\<close>

lemma outcome_simps [simp]: "outcome (r, st, w) = (r, w)"
  by (simp add: outcome_def)













end
